theory Spec2Isabelle
  imports Main
begin

section \<open>The per-peer identify push handler: p2p/protocol/identify/peer\_loop.go\<close>

text \<open>
  The handler of one remote peer is a Go struct that shares the identify service with every
  other handler and talks to the host, the peerstore and the network. The embedding is
  sequential: one call of a method is a function from the world before the call to the
  outcome of the call and the world after it. What the collaborators answer during the call
  (which case each \<open>select\<close> takes, what the host returns for a stream, what the writer
  returns) is an argument of the function, the environment, so that a theorem quantifies
  over every answer. Every effect the handler has on a collaborator is appended to a trace.
\<close>

subsection \<open>Values\<close>

type_synonym peer_ID = string
type_synonym protocol_ID = string
type_synonym multiaddr = string
type_synonym envelope = string

text \<open>A connection (\<open>network.Conn\<close>) is known by a number.\<close>

type_synonym conn = nat

text \<open>A stream (\<open>network.Stream\<close>): its own number and the connection \<open>Conn()\<close> gives.\<close>

record network_Stream =
  stream_id :: nat
  Conn :: conn

text \<open>
  Errors. \<open>errProtocolNotSupported\<close> is the package's unexported sentinel, made by
  \<open>errors.New\<close>: the comparison \<open>err == errProtocolNotSupported\<close> is pointer identity, so
  no error made outside the package equals it. Errors made outside the package (by the
  context, the host, the peerstore, the writer) are \<open>Foreign\<close>; \<open>Errorf msg err\<close> is
  \<open>fmt.Errorf(msg + ": %w", err)\<close>, the error \<open>err\<close> wrapped under a message.
\<close>

datatype context_error = Canceled | DeadlineExceeded

datatype foreign_error = ContextError context_error | OtherError string

datatype error = errProtocolNotSupported | Foreign foreign_error | Errorf string error

text \<open>
  A \<open>context.Context\<close> is the chain of derivations that made it. Durations are
  \<open>time.Duration\<close>, a count of nanoseconds.
\<close>

datatype go_context =
    Background
  | WithCancel go_context nat
  | WithTimeout go_context int
  | WithValue go_context string string

datatype CancelFunc = CancelFunc nat

definition time_Second :: int where
  "time_Second = 1000000000"

text \<open>\<open>network.WithNoDial\<close> stores its reason in the context, under a key of its own.\<close>

definition WithNoDial :: "go_context \<Rightarrow> string \<Rightarrow> go_context" where
  "WithNoDial ctx reason = WithValue ctx ''noDial'' reason"

text \<open>\<open>network.GetNoDial\<close>: the reason of the nearest no-dial hint of the chain, if any.\<close>

fun GetNoDial :: "go_context \<Rightarrow> string option" where
  "GetNoDial Background = None"
| "GetNoDial (WithCancel c n) = GetNoDial c"
| "GetNoDial (WithTimeout c d) = GetNoDial c"
| "GetNoDial (WithValue c k v) = (if k = ''noDial'' then Some v else GetNoDial c)"

text \<open>The timeouts a context is under, the most recent first.\<close>

fun timeouts :: "go_context \<Rightarrow> int list" where
  "timeouts Background = []"
| "timeouts (WithCancel c n) = timeouts c"
| "timeouts (WithTimeout c d) = d # timeouts c"
| "timeouts (WithValue c k v) = timeouts c"

text \<open>\<open>protocol.ConvertFromStrings\<close>: \<open>protocol.ID\<close> is a string type, each element is converted.\<close>

definition ConvertFromStrings :: "string list \<Rightarrow> protocol_ID list" where
  "ConvertFromStrings protos = map (\<lambda>p. p) protos"

text \<open>
  A buffered channel of \<open>struct{}\<close>: only its capacity and the number of buffered elements
  matter. A send on a full channel and a receive on an empty one block; with no other task
  in the model they block for good, which is \<open>None\<close>.
\<close>

record chan =
  chan_cap :: nat
  chan_len :: nat

definition make_chan :: "nat \<Rightarrow> chan" where
  "make_chan n = \<lparr>chan_cap = n, chan_len = 0\<rparr>"

definition chan_send :: "chan \<Rightarrow> chan option" where
  "chan_send c = (if chan_len c < chan_cap c then Some (c\<lparr>chan_len := Suc (chan_len c)\<rparr>) else None)"

definition chan_recv :: "chan \<Rightarrow> chan option" where
  "chan_recv c = (if 0 < chan_len c then Some (c\<lparr>chan_len := chan_len c - 1\<rparr>) else None)"

subsection \<open>The structs\<close>

record identifySnapshot =
  protocols :: "string list"
  addrs :: "multiaddr list"
  record' :: "envelope option"

text \<open>
  The identify service, \<open>idService\<close>, is declared outside this file; these are the parts the
  handler uses: the snapshot \<open>getSnapshot\<close> returns, the semaphore channel and, behind
  \<open>Host.Peerstore()\<close>, what the peerstore knows of each peer (the protocols it is known to
  speak, or the error its lookup gives).
\<close>

record idService =
  currentSnapshot :: identifySnapshot
  pushSemaphore :: chan
  Peerstore :: "peer_ID \<Rightarrow> foreign_error + protocol_ID list"

text \<open>
  The handler. Its field \<open>ids\<close> is a pointer to the shared service, which lives in the
  world beside the handler; \<open>snapshotMu\<close> is seen in the trace.
\<close>

record peerHandler =
  cancel :: "CancelFunc option"
  pid :: peer_ID
  snapshot :: identifySnapshot
  pushCh :: chan

subsection \<open>The world, the trace and the environment\<close>

datatype event =
    EvSupportsProtocols peer_ID "string list"
  | EvSemAcquire
  | EvSemRelease
  | EvNewStream go_context peer_ID "protocol_ID list"
  | EvTimeoutCancel
  | EvLock
  | EvStoreSnapshot identifySnapshot
  | EvUnlock
  | EvWrite conn identifySnapshot network_Stream
  | EvReset network_Stream
  | EvClose network_Stream
  | EvDebug string
  | EvGoLoop go_context
  | EvCancel nat

record world =
  ph :: peerHandler
  ids :: idService
  nextContext :: nat
  trace :: "event list"

definition emit :: "event \<Rightarrow> world \<Rightarrow> world" where
  "emit ev w = w\<lparr>trace := trace w @ [ev]\<rparr>"

text \<open>
  The case a \<open>select\<close> over a connection's identify-completion channel and \<open>ctx.Done()\<close>
  takes: the first, the second, or neither ever (the \<open>select\<close> blocks for good).
\<close>

datatype select_case = IdentifyWait | ctx_Done | never

text \<open>
  The environment of one call of \<open>sendPush\<close>: the connections \<open>ConnsToPeer\<close> returns at
  each of its two calls, each with the case its \<open>select\<close> takes; what \<open>ctx.Err()\<close> returns
  once the context is done; what \<open>Host.NewStream\<close> and \<open>writeChunkedIdentifyMsg\<close> return.
\<close>

record env =
  ConnsToPeer_openStream :: "(conn \<times> select_case) list"
  ConnsToPeer_peerSupportsProtos :: "(conn \<times> select_case) list"
  ctx_Err :: context_error
  NewStream_result :: "foreign_error + network_Stream"
  writeChunkedIdentifyMsg_result :: "foreign_error option"

text \<open>How a call ends: it returns, it never returns, or it panics.\<close>

datatype 'a outcome = Returns 'a | Blocks | Panics string

subsection \<open>Collaborators declared outside the file\<close>

text \<open>
  Modelled from the spec: \<open>idService.getSnapshot\<close> is declared outside src;
  "\<open>GetSnapshot() \<rightarrow> Snapshot\<close> returns the current immutable local identity snapshot".
\<close>

definition getSnapshot :: "idService \<Rightarrow> identifySnapshot" where
  "getSnapshot s = currentSnapshot s"

text \<open>
  Modelled from the spec: the peerstore's \<open>SupportsProtocols\<close> is declared outside src;
  "\<open>PeerSupportsProtocols(peerID, protocolList) \<rightarrow> (supported-subset, error)\<close>", the
  intersection of the peer's known protocols with the list asked for. It returns both
  values, as the Go function does.
\<close>

definition SupportsProtocols ::
  "(peer_ID \<Rightarrow> foreign_error + protocol_ID list) \<Rightarrow> peer_ID \<Rightarrow> string list
    \<Rightarrow> protocol_ID list \<times> foreign_error option" where
  "SupportsProtocols pstore p protos =
     (case pstore p of
        Inl err \<Rightarrow> ([], Some err)
      | Inr known \<Rightarrow> (filter (\<lambda>x. x \<in> set known) protos, None))"

text \<open>
  Modelled from the spec: \<open>idService.writeChunkedIdentifyMsg\<close> is declared outside src;
  "\<open>WriteChunkedMessage(connection, snapshot, stream) \<rightarrow> error\<close> serializes and transmits
  the snapshot". The write is recorded and the environment gives its error.
\<close>

definition writeChunkedIdentifyMsg ::
  "env \<Rightarrow> conn \<Rightarrow> identifySnapshot \<Rightarrow> network_Stream \<Rightarrow> world \<Rightarrow> foreign_error option \<times> world" where
  "writeChunkedIdentifyMsg e c snap s w = (writeChunkedIdentifyMsg_result e, emit (EvWrite c snap s) w)"

subsection \<open>newPeerHandler, start, stop\<close>

definition newPeerHandler :: "peer_ID \<Rightarrow> idService \<Rightarrow> peerHandler" where
  "newPeerHandler p s =
     \<lparr>cancel = None, pid = p, snapshot = getSnapshot s, pushCh = make_chan 1\<rparr>"

text \<open>
  \<open>start\<close>: the panic on a running handler; otherwise \<open>context.WithCancel\<close> makes a child
  context with a fresh number, its cancel function is stored and the loop is launched:
  \<open>go ph.loop(ctx, onExit)\<close> is the event \<open>EvGoLoop\<close> of the trace. The callback \<open>onExit\<close>
  is run by the loop at its end and touches no field of the handler. \<open>stop\<close> calls the
  stored cancel function, the event \<open>EvCancel\<close>, and clears it.
\<close>

definition start :: "go_context \<Rightarrow> world \<Rightarrow> unit outcome \<times> world" where
  "start ctx w =
     (if cancel (ph w) \<noteq> None then (Panics ''peer handler already running'', w)
      else
        let n = nextContext w;
            ctx' = WithCancel ctx n;
            w1 = w\<lparr>nextContext := Suc n\<rparr>;
            w2 = w1\<lparr>ph := (ph w1)\<lparr>cancel := Some (CancelFunc n)\<rparr>\<rparr>
        in (Returns (), emit (EvGoLoop ctx') w2))"

definition stop :: "world \<Rightarrow> error option outcome \<times> world" where
  "stop w =
     (case cancel (ph w) of
        Some (CancelFunc n) \<Rightarrow>
          let w1 = emit (EvCancel n) w;
              w2 = w1\<lparr>ph := (ph w1)\<lparr>cancel := None\<rparr>\<rparr>
          in (Returns None, w2)
      | None \<Rightarrow> (Returns None, w))"

subsection \<open>peerSupportsProtos, openStream, sendPush\<close>

text \<open>
  The loop \<open>for _, c := range conns { select { case <-IdentifyWait(c): case <-ctx.Done(): return ... } }\<close>
  of \<open>openStream\<close> and of \<open>peerSupportsProtos\<close>: it falls through once every connection's
  signal was taken, it leaves the function at the first \<open>ctx.Done()\<close>, it blocks at the
  first \<open>select\<close> with no case ever ready.
\<close>

datatype loop_exit = FallsThrough | ReturnsOnDone | BlocksForever

fun range_conns :: "(conn \<times> select_case) list \<Rightarrow> loop_exit" where
  "range_conns [] = FallsThrough"
| "range_conns ((c, IdentifyWait) # conns) = range_conns conns"
| "range_conns ((c, ctx_Done) # conns) = ReturnsOnDone"
| "range_conns ((c, never) # conns) = BlocksForever"

definition peerSupportsProtos ::
  "env \<Rightarrow> go_context \<Rightarrow> string list \<Rightarrow> world \<Rightarrow> bool outcome \<times> world" where
  "peerSupportsProtos e ctx protos w =
     (case range_conns (ConnsToPeer_peerSupportsProtos e) of
        ReturnsOnDone \<Rightarrow> (Returns False, w)
      | BlocksForever \<Rightarrow> (Blocks, w)
      | FallsThrough \<Rightarrow>
          let pstore = Peerstore (ids w);
              (sup, err) = SupportsProtocols pstore (pid (ph w)) protos;
              w1 = emit (EvSupportsProtocols (pid (ph w)) protos) w
          in if err = None \<and> length sup = 0 then (Returns False, w1)
             else (Returns True, w1))"

text \<open>The deferred \<open>func() { <-ph.ids.pushSemaphore }()\<close> of \<open>openStream\<close>.\<close>

definition release_pushSemaphore :: "world \<Rightarrow> world option" where
  "release_pushSemaphore w =
     (case chan_recv (pushSemaphore (ids w)) of
        None \<Rightarrow> None
      | Some sem \<Rightarrow> Some (emit EvSemRelease (w\<lparr>ids := (ids w)\<lparr>pushSemaphore := sem\<rparr>\<rparr>)))"

text \<open>
  \<open>openStream\<close>. After the send on the semaphore the two deferred calls run on every
  return, last deferred first: \<open>cancel()\<close> of the timeout context, then the receive from
  the semaphore.
\<close>

definition openStream ::
  "env \<Rightarrow> go_context \<Rightarrow> string list \<Rightarrow> world \<Rightarrow> (error + network_Stream) outcome \<times> world" where
  "openStream e ctx protos w =
     (case range_conns (ConnsToPeer_openStream e) of
        ReturnsOnDone \<Rightarrow> (Returns (Inl (Foreign (ContextError (ctx_Err e)))), w)
      | BlocksForever \<Rightarrow> (Blocks, w)
      | FallsThrough \<Rightarrow>
          (case peerSupportsProtos e ctx protos w of
             (Blocks, w1) \<Rightarrow> (Blocks, w1)
           | (Panics m, w1) \<Rightarrow> (Panics m, w1)
           | (Returns supported, w1) \<Rightarrow>
               if \<not> supported then (Returns (Inl errProtocolNotSupported), w1)
               else
                 (case chan_send (pushSemaphore (ids w1)) of
                    None \<Rightarrow> (Blocks, w1)
                  | Some sem \<Rightarrow>
                      let w2 = emit EvSemAcquire (w1\<lparr>ids := (ids w1)\<lparr>pushSemaphore := sem\<rparr>\<rparr>);
                          ctx1 = WithTimeout ctx (30 * time_Second);
                          ctx2 = WithNoDial ctx1 ''should already have connection'';
                          w3 = emit (EvNewStream ctx2 (pid (ph w2)) (ConvertFromStrings protos)) w2;
                          r = (case NewStream_result e of
                                 Inl err \<Rightarrow> Inl (Foreign err)
                               | Inr s \<Rightarrow> Inr s);
                          w4 = emit EvTimeoutCancel w3
                      in (case release_pushSemaphore w4 of
                            None \<Rightarrow> (Blocks, w4)
                          | Some w5 \<Rightarrow> (Returns r, w5)))))"

text \<open>
  \<open>sendPush\<close>, with the protocol identifier \<open>IDPush\<close> (a constant declared outside the
  file) as a parameter. The deferred \<open>dp.Close()\<close> runs on both returns that follow it.
\<close>

definition sendPush ::
  "protocol_ID \<Rightarrow> env \<Rightarrow> go_context \<Rightarrow> world \<Rightarrow> error option outcome \<times> world" where
  "sendPush IDPush e ctx w =
     (case openStream e ctx [IDPush] w of
        (Blocks, w1) \<Rightarrow> (Blocks, w1)
      | (Panics m, w1) \<Rightarrow> (Panics m, w1)
      | (Returns (Inl err), w1) \<Rightarrow>
          if err = errProtocolNotSupported
          then (Returns None,
                emit (EvDebug ''not sending push as peer does not support protocol'') w1)
          else (Returns (Some (Errorf ''failed to open push stream'' err)), w1)
      | (Returns (Inr dp), w1) \<Rightarrow>
          let snap = getSnapshot (ids w1);
              w2 = emit EvLock w1;
              w3 = emit (EvStoreSnapshot snap) (w2\<lparr>ph := (ph w2)\<lparr>snapshot := snap\<rparr>\<rparr>);
              w4 = emit EvUnlock w3
          in (case writeChunkedIdentifyMsg e (Conn dp) snap dp w4 of
                (Some err, w5) \<Rightarrow>
                  let w6 = emit (EvReset dp) w5
                  in (Returns (Some (Errorf ''failed to send push message'' (Foreign err))),
                      emit (EvClose dp) w6)
              | (None, w5) \<Rightarrow> (Returns None, emit (EvClose dp) w5)))"

subsection \<open>Reading the trace\<close>

text \<open>The events a call appended to the trace: those of the world after it, past the world before it.\<close>

definition new_events :: "world \<Rightarrow> world \<Rightarrow> event list" where
  "new_events w w' = drop (length (trace w)) (trace w')"

fun is_sem_event :: "event \<Rightarrow> bool" where
  "is_sem_event EvSemAcquire = True"
| "is_sem_event EvSemRelease = True"
| "is_sem_event ev = False"

text \<open>The events on a stream: a negotiation, a write, a reset, a close.\<close>

fun is_stream_event :: "event \<Rightarrow> bool" where
  "is_stream_event (EvNewStream c p ps) = True"
| "is_stream_event (EvWrite c s d) = True"
| "is_stream_event (EvReset d) = True"
| "is_stream_event (EvClose d) = True"
| "is_stream_event ev = False"

subsection \<open>Concrete worlds and environments\<close>

definition snapshot0 :: identifySnapshot where
  "snapshot0 = \<lparr>protocols = [''/x''], addrs = [''/ip4/10.0.0.1/tcp/4001''], record' = None\<rparr>"

definition snapshot1 :: identifySnapshot where
  "snapshot1 =
     \<lparr>protocols = [''/x''], addrs = [''/ip4/10.0.0.1/tcp/4001'', ''/ip4/10.0.0.2/tcp/4001''],
      record' = None\<rparr>"

text \<open>
  A stopped handler for peer \<open>P\<close> that last sent \<open>snapshot0\<close>, a service whose snapshot is
  now \<open>snapshot1\<close>, a free semaphore of two slots, and a peerstore that knows \<open>P\<close> to speak
  \<open>/push\<close> and has no entry for any other peer.
\<close>

definition world0 :: world where
  "world0 =
     \<lparr>ph = \<lparr>cancel = None, pid = ''P'', snapshot = snapshot0, pushCh = make_chan 1\<rparr>,
      ids = \<lparr>currentSnapshot = snapshot1, pushSemaphore = make_chan 2,
             Peerstore = (\<lambda>p. if p = ''P'' then Inr [''/push'', ''/x'']
                               else Inl (OtherError ''peer not found''))\<rparr>,
      nextContext = 0, trace = []\<rparr>"

text \<open>The same with a peerstore that knows \<open>P\<close> to speak \<open>/x\<close> only.\<close>

definition world_no_push :: world where
  "world_no_push = world0\<lparr>ids := (ids world0)\<lparr>Peerstore := (\<lambda>p. Inr [''/x''])\<rparr>\<rparr>"

text \<open>The same with a peerstore whose lookup fails.\<close>

definition world_lookup_error :: world where
  "world_lookup_error =
     world0\<lparr>ids := (ids world0)\<lparr>Peerstore := (\<lambda>p. Inl (OtherError ''datastore closed''))\<rparr>\<rparr>"

text \<open>One connection, identified; the host opens stream 7 on it; the write succeeds.\<close>

definition env_ok :: env where
  "env_ok =
     \<lparr>ConnsToPeer_openStream = [(1, IdentifyWait)],
      ConnsToPeer_peerSupportsProtos = [(1, IdentifyWait)],
      ctx_Err = Canceled,
      NewStream_result = Inr \<lparr>stream_id = 7, Conn = 1\<rparr>,
      writeChunkedIdentifyMsg_result = None\<rparr>"

definition env_write_fails :: env where
  "env_write_fails = env_ok\<lparr>writeChunkedIdentifyMsg_result := Some (OtherError ''broken pipe'')\<rparr>"

definition env_negotiation_times_out :: env where
  "env_negotiation_times_out = env_ok\<lparr>NewStream_result := Inl (ContextError DeadlineExceeded)\<rparr>"

text \<open>The context is cancelled while \<open>openStream\<close>'s own loop waits on connection 1.\<close>

definition env_cancel_in_openStream :: env where
  "env_cancel_in_openStream = env_ok\<lparr>ConnsToPeer_openStream := [(1, ctx_Done)]\<rparr>"

text \<open>
  Connection 2 is made after \<open>openStream\<close>'s own loop has passed, and the context is
  cancelled while \<open>peerSupportsProtos\<close> waits on it.
\<close>

definition env_cancel_in_peerSupportsProtos :: env where
  "env_cancel_in_peerSupportsProtos =
     env_ok\<lparr>ConnsToPeer_peerSupportsProtos := [(1, IdentifyWait), (2, ctx_Done)]\<rparr>"

section \<open>Properties\<close>

subsection \<open>Auxiliary facts\<close>

lemma trace_emit: "trace (emit ev w) = trace w @ [ev]"
  by (simp add: emit_def)

lemma ph_emit: "ph (emit ev w) = ph w"
  by (simp add: emit_def)

lemma ids_emit: "ids (emit ev w) = ids w"
  by (simp add: emit_def)

lemma chan_recv_send: "chan_send c = Some c' \<Longrightarrow> chan_recv c' = Some c"
  by (auto simp: chan_send_def chan_recv_def split: if_splits)

text \<open>What \<open>peerSupportsProtos\<close> does in each of its three exits.\<close>

lemma peerSupportsProtos_world:
  "peerSupportsProtos e ctx protos w = (r, w') \<Longrightarrow>
     ph w' = ph w \<and> ids w' = ids w \<and>
     (trace w' = trace w \<or> trace w' = trace w @ [EvSupportsProtocols (pid (ph w)) protos])"
  by (auto simp: peerSupportsProtos_def Let_def emit_def split: loop_exit.splits prod.splits if_splits)

lemma peerSupportsProtos_True:
  "peerSupportsProtos e ctx protos w = (Returns True, w') \<Longrightarrow>
     w' = emit (EvSupportsProtocols (pid (ph w)) protos) w"
  by (auto simp: peerSupportsProtos_def Let_def split: loop_exit.splits prod.splits if_splits)

text \<open>The three ways \<open>openStream\<close> ends once its own loop has fallen through.\<close>

lemma openStream_not_supported:
  assumes "range_conns (ConnsToPeer_openStream e) = FallsThrough"
      and "peerSupportsProtos e ctx protos w = (Returns False, w1)"
  shows "openStream e ctx protos w = (Returns (Inl errProtocolNotSupported), w1)"
  using assms by (simp add: openStream_def)

lemma openStream_semaphore_full:
  assumes "range_conns (ConnsToPeer_openStream e) = FallsThrough"
      and "peerSupportsProtos e ctx protos w = (Returns True, w1)"
      and "chan_send (pushSemaphore (ids w)) = None"
  shows "openStream e ctx protos w = (Blocks, w1)"
  using assms peerSupportsProtos_world[OF assms(2)] by (simp add: openStream_def)

lemma openStream_negotiates:
  assumes "range_conns (ConnsToPeer_openStream e) = FallsThrough"
      and "peerSupportsProtos e ctx protos w = (Returns True, w1)"
      and "chan_send (pushSemaphore (ids w)) = Some sem"
  shows "\<exists>w'. openStream e ctx protos w =
           (Returns (case NewStream_result e of Inl err \<Rightarrow> Inl (Foreign err) | Inr s \<Rightarrow> Inr s), w')
         \<and> ph w' = ph w \<and> ids w' = ids w
         \<and> trace w' = trace w @
             [EvSupportsProtocols (pid (ph w)) protos, EvSemAcquire,
              EvNewStream (WithNoDial (WithTimeout ctx (30 * time_Second))
                  ''should already have connection'') (pid (ph w)) protos,
              EvTimeoutCancel, EvSemRelease]"
proof -
  have w1: "w1 = emit (EvSupportsProtocols (pid (ph w)) protos) w"
    by (rule peerSupportsProtos_True[OF assms(2)])
  have sem: "chan_send (pushSemaphore (ids w1)) = Some sem"
    using assms(3) w1 by (simp add: ids_emit)
  have rcv: "chan_recv sem = Some (pushSemaphore (ids w))"
    by (rule chan_recv_send[OF assms(3)])
  show ?thesis
    using assms(1,2) sem rcv w1
    by (simp add: openStream_def Let_def release_pushSemaphore_def emit_def
        ConvertFromStrings_def)
qed


text \<open>\<open>peerSupportsProtos\<close> has no panic of its own.\<close>

lemma peerSupportsProtos_no_panic: "fst (peerSupportsProtos e ctx protos w) \<noteq> Panics m"
  by (auto simp: peerSupportsProtos_def Let_def split: loop_exit.splits prod.splits if_splits)

lemma peerSupportsProtos_Blocks:
  "peerSupportsProtos e ctx protos w = (Blocks, w1) \<Longrightarrow> w1 = w"
  by (auto simp: peerSupportsProtos_def Let_def split: loop_exit.splits prod.splits if_splits)

text \<open>
  Every run of \<open>openStream\<close> is one of six: the own loop returns on cancellation or blocks;
  the support check blocks or says no; the semaphore is full; the stream is negotiated.
\<close>

lemma openStream_paths:
  obtains
    (CancelledInLoop) "range_conns (ConnsToPeer_openStream e) = ReturnsOnDone"
      "openStream e ctx protos w = (Returns (Inl (Foreign (ContextError (ctx_Err e)))), w)"
  | (BlockedInLoop) "range_conns (ConnsToPeer_openStream e) = BlocksForever"
      "openStream e ctx protos w = (Blocks, w)"
  | (BlockedInCheck) "range_conns (ConnsToPeer_openStream e) = FallsThrough"
      "peerSupportsProtos e ctx protos w = (Blocks, w)"
      "openStream e ctx protos w = (Blocks, w)"
  | (NotSupported) w1 where "range_conns (ConnsToPeer_openStream e) = FallsThrough"
      "peerSupportsProtos e ctx protos w = (Returns False, w1)"
      "openStream e ctx protos w = (Returns (Inl errProtocolNotSupported), w1)"
  | (SemaphoreFull) w1 where "range_conns (ConnsToPeer_openStream e) = FallsThrough"
      "peerSupportsProtos e ctx protos w = (Returns True, w1)"
      "chan_send (pushSemaphore (ids w)) = None"
      "openStream e ctx protos w = (Blocks, w1)"
  | (Negotiated) w1 w' where "range_conns (ConnsToPeer_openStream e) = FallsThrough"
      "peerSupportsProtos e ctx protos w = (Returns True, w1)"
      "openStream e ctx protos w =
         (Returns (case NewStream_result e of Inl err \<Rightarrow> Inl (Foreign err) | Inr s \<Rightarrow> Inr s), w')"
      "ph w' = ph w" "ids w' = ids w"
      "trace w' = trace w @
             [EvSupportsProtocols (pid (ph w)) protos, EvSemAcquire,
              EvNewStream (WithNoDial (WithTimeout ctx (30 * time_Second))
                  ''should already have connection'') (pid (ph w)) protos,
              EvTimeoutCancel, EvSemRelease]"
proof (cases "range_conns (ConnsToPeer_openStream e)")
  case ReturnsOnDone
  then show ?thesis using CancelledInLoop by (simp add: openStream_def)
next
  case BlocksForever
  then show ?thesis using BlockedInLoop by (simp add: openStream_def)
next
  case FallsThrough
  obtain r1 w1 where check: "peerSupportsProtos e ctx protos w = (r1, w1)"
    by (cases "peerSupportsProtos e ctx protos w")
  show ?thesis
  proof (cases r1)
    case (Returns supported)
    show ?thesis
    proof (cases supported)
      case False
      then have no: "peerSupportsProtos e ctx protos w = (Returns False, w1)"
        using check Returns by simp
      show ?thesis
        by (rule NotSupported[OF FallsThrough no openStream_not_supported[OF FallsThrough no]])
    next
      case True
      then have yes: "peerSupportsProtos e ctx protos w = (Returns True, w1)"
        using check Returns by simp
      show ?thesis
      proof (cases "chan_send (pushSemaphore (ids w))")
        case None
        show ?thesis
          by (rule SemaphoreFull[OF FallsThrough yes None
                openStream_semaphore_full[OF FallsThrough yes None]])
      next
        case (Some sem)
        from openStream_negotiates[OF FallsThrough yes Some]
        obtain w' where
          "openStream e ctx protos w =
            (Returns (case NewStream_result e of Inl err \<Rightarrow> Inl (Foreign err) | Inr s \<Rightarrow> Inr s), w')"
          "ph w' = ph w" "ids w' = ids w"
          "trace w' = trace w @
             [EvSupportsProtocols (pid (ph w)) protos, EvSemAcquire,
              EvNewStream (WithNoDial (WithTimeout ctx (30 * time_Second))
                  ''should already have connection'') (pid (ph w)) protos,
              EvTimeoutCancel, EvSemRelease]"
          by blast
        then show ?thesis
          using Negotiated[OF FallsThrough yes] by blast
      qed
    qed
  next
    case Blocks
    then have "w1 = w" using check peerSupportsProtos_Blocks by blast
    then show ?thesis
      using BlockedInCheck FallsThrough check Blocks by (simp add: openStream_def)
  next
    case (Panics m)
    then show ?thesis using check peerSupportsProtos_no_panic[of e ctx protos w m] by simp
  qed
qed


text \<open>What \<open>sendPush\<close> does after each return of \<open>openStream\<close>.\<close>

lemma sendPush_on_not_supported:
  "openStream e ctx [IDPush] w = (Returns (Inl errProtocolNotSupported), w1) \<Longrightarrow>
     sendPush IDPush e ctx w =
       (Returns None, emit (EvDebug ''not sending push as peer does not support protocol'') w1)"
  by (simp add: sendPush_def)

lemma sendPush_on_stream:
  "openStream e ctx [IDPush] w = (Returns (Inr dp), w1) \<Longrightarrow>
     sendPush IDPush e ctx w =
       (let snap = getSnapshot (ids w1);
            w4 = w1\<lparr>ph := (ph w1)\<lparr>snapshot := snap\<rparr>,
                   trace := trace w1 @ [EvLock, EvStoreSnapshot snap, EvUnlock, EvWrite (Conn dp) snap dp]\<rparr>
        in case writeChunkedIdentifyMsg_result e of
             Some err \<Rightarrow>
               (Returns (Some (Errorf ''failed to send push message'' (Foreign err))),
                w4\<lparr>trace := trace w4 @ [EvReset dp, EvClose dp]\<rparr>)
           | None \<Rightarrow> (Returns None, w4\<lparr>trace := trace w4 @ [EvClose dp]\<rparr>))"
  by (simp add: sendPush_def writeChunkedIdentifyMsg_def Let_def emit_def split: option.splits)

text \<open>A stream comes out of \<open>openStream\<close> on the negotiated path only, handler and service untouched.\<close>

lemma openStream_stream_world:
  assumes "openStream e ctx protos w = (Returns (Inr dp), w1)"
  shows "ph w1 = ph w \<and> ids w1 = ids w \<and> NewStream_result e = Inr dp"
  using assms
  by (cases rule: openStream_paths[of e ctx protos w]) (auto split: sum.splits)

lemma openStream_sentinel_world:
  assumes "openStream e ctx protos w = (Returns (Inl errProtocolNotSupported), w1)"
  shows "ph w1 = ph w \<and> ids w1 = ids w \<and>
         (trace w1 = trace w \<or> trace w1 = trace w @ [EvSupportsProtocols (pid (ph w)) protos])"
proof (cases rule: openStream_paths[of e ctx protos w])
  case (NotSupported w1')
  then have "w1' = w1" using assms by simp
  then show ?thesis using peerSupportsProtos_world[OF NotSupported(2)] by simp
qed (use assms in \<open>auto split: sum.splits\<close>)

section \<open>The claims\<close>

text \<open>
  C1. Whenever \<open>openStream\<close> reports \<open>errProtocolNotSupported\<close> to \<open>sendPush\<close>, \<open>sendPush\<close>
  returns a nil error, the call has appended no stream event to the trace (no negotiation,
  no write, no reset, no close), and the handler's \<open>snapshot\<close> is the one it had.
\<close>

theorem sendPush_protocol_not_supported:
  assumes "openStream e ctx [IDPush] w = (Returns (Inl errProtocolNotSupported), w1)"
  shows "fst (sendPush IDPush e ctx w) = Returns None
       \<and> filter is_stream_event (new_events w (snd (sendPush IDPush e ctx w))) = []
       \<and> snapshot (ph (snd (sendPush IDPush e ctx w))) = snapshot (ph w)"
proof -
  let ?dbg = "EvDebug ''not sending push as peer does not support protocol''"
  have run: "sendPush IDPush e ctx w = (Returns None, emit ?dbg w1)"
    by (rule sendPush_on_not_supported[OF assms])
  from openStream_sentinel_world[OF assms]
  have same: "ph w1 = ph w"
    and tr: "trace w1 = trace w \<or> trace w1 = trace w @ [EvSupportsProtocols (pid (ph w)) [IDPush]]"
    by simp_all
  from tr have "filter is_stream_event (new_events w (emit ?dbg w1)) = []"
    by (auto simp: new_events_def trace_emit)
  then show ?thesis using run same by (simp add: ph_emit)
qed

theorem sendPush_protocol_not_supported_witness:
  "openStream env_ok Background [''/push''] world_no_push =
     (Returns (Inl errProtocolNotSupported),
      emit (EvSupportsProtocols ''P'' [''/push'']) world_no_push)
   \<and> fst (sendPush ''/push'' env_ok Background world_no_push) = Returns None
   \<and> filter is_stream_event
       (new_events world_no_push (snd (sendPush ''/push'' env_ok Background world_no_push))) = []
   \<and> snapshot (ph (snd (sendPush ''/push'' env_ok Background world_no_push))) = snapshot0"
proof -
  have h: "openStream env_ok Background [''/push''] world_no_push =
     (Returns (Inl errProtocolNotSupported),
      emit (EvSupportsProtocols ''P'' [''/push'']) world_no_push)"
    by (simp add: openStream_def peerSupportsProtos_def SupportsProtocols_def Let_def
        env_ok_def world_no_push_def world0_def)
  have "snapshot (ph world_no_push) = snapshot0"
    by (simp add: world_no_push_def world0_def)
  then show ?thesis
    using h sendPush_protocol_not_supported[OF h] by simp
qed

text \<open>
  C2. Whenever \<open>openStream\<close> hands \<open>sendPush\<close> a stream, \<open>sendPush\<close> takes the service's
  current snapshot and stores it in the handler between \<open>Lock\<close> and \<open>Unlock\<close>, and only
  then writes; so the handler holds that snapshot after the call whatever the write
  returns, also when it fails.
\<close>

theorem sendPush_stores_snapshot_before_write:
  assumes "openStream e ctx [IDPush] w = (Returns (Inr dp), w1)"
  shows "snapshot (ph (snd (sendPush IDPush e ctx w))) = getSnapshot (ids w)
       \<and> take 4 (new_events w1 (snd (sendPush IDPush e ctx w))) =
           [EvLock, EvStoreSnapshot (getSnapshot (ids w)), EvUnlock,
            EvWrite (Conn dp) (getSnapshot (ids w)) dp]"
proof -
  have ids: "ids w1 = ids w"
    using openStream_stream_world[OF assms] by simp
  show ?thesis
    using sendPush_on_stream[OF assms] ids
    by (cases "writeChunkedIdentifyMsg_result e") (simp_all add: Let_def new_events_def)
qed

theorem sendPush_stores_snapshot_before_write_witness:
  "fst (openStream env_write_fails Background [''/push''] world0) =
     Returns (Inr \<lparr>stream_id = 7, Conn = 1\<rparr>)
   \<and> fst (sendPush ''/push'' env_write_fails Background world0) \<noteq> Returns None
   \<and> snapshot (ph world0) = snapshot0
   \<and> snapshot (ph (snd (sendPush ''/push'' env_write_fails Background world0))) = snapshot1
   \<and> take 4 (new_events (snd (openStream env_write_fails Background [''/push''] world0))
        (snd (sendPush ''/push'' env_write_fails Background world0))) =
      [EvLock, EvStoreSnapshot snapshot1, EvUnlock,
       EvWrite 1 snapshot1 \<lparr>stream_id = 7, Conn = 1\<rparr>]"
proof -
  obtain r w1 where run: "openStream env_write_fails Background [''/push''] world0 = (r, w1)"
    by (cases "openStream env_write_fails Background [''/push''] world0")
  have r: "r = Returns (Inr \<lparr>stream_id = 7, Conn = 1\<rparr>)"
    using run
    by (auto simp: openStream_def peerSupportsProtos_def SupportsProtocols_def Let_def
        release_pushSemaphore_def chan_send_def chan_recv_def make_chan_def emit_def
        env_write_fails_def env_ok_def world0_def)
  have h: "openStream env_write_fails Background [''/push''] world0 =
      (Returns (Inr \<lparr>stream_id = 7, Conn = 1\<rparr>), w1)"
    using run r by simp
  have fails: "fst (sendPush ''/push'' env_write_fails Background world0) \<noteq> Returns None"
    using sendPush_on_stream[OF h]
    by (simp add: Let_def env_write_fails_def env_ok_def)
  have cur: "getSnapshot (ids world0) = snapshot1" "snapshot (ph world0) = snapshot0"
    by (simp_all add: getSnapshot_def world0_def)
  show ?thesis
    using sendPush_stores_snapshot_before_write[OF h] h fails cur by simp
qed

text \<open>
  C5. Whenever \<open>sendPush\<close> has a stream and the write on it fails, the events after the
  write are the \<open>Reset\<close> of the stream and then the deferred \<open>Close\<close>, and \<open>sendPush\<close> returns
  a non-nil error: the writer's error wrapped under "failed to send push message".
\<close>

theorem sendPush_write_failure_resets:
  assumes "openStream e ctx [IDPush] w = (Returns (Inr dp), w1)"
      and "writeChunkedIdentifyMsg_result e = Some err"
  shows "fst (sendPush IDPush e ctx w) =
           Returns (Some (Errorf ''failed to send push message'' (Foreign err)))
       \<and> new_events w1 (snd (sendPush IDPush e ctx w)) =
           [EvLock, EvStoreSnapshot (getSnapshot (ids w)), EvUnlock,
            EvWrite (Conn dp) (getSnapshot (ids w)) dp, EvReset dp, EvClose dp]"
proof -
  have ids: "ids w1 = ids w"
    using openStream_stream_world[OF assms(1)] by simp
  show ?thesis
    using sendPush_on_stream[OF assms(1)] assms(2) ids
    by (simp add: Let_def new_events_def)
qed

theorem sendPush_write_failure_resets_witness:
  "fst (openStream env_write_fails Background [''/push''] world0) =
     Returns (Inr \<lparr>stream_id = 7, Conn = 1\<rparr>)
   \<and> writeChunkedIdentifyMsg_result env_write_fails = Some (OtherError ''broken pipe'')
   \<and> fst (sendPush ''/push'' env_write_fails Background world0) =
       Returns (Some (Errorf ''failed to send push message'' (Foreign (OtherError ''broken pipe''))))
   \<and> new_events (snd (openStream env_write_fails Background [''/push''] world0))
        (snd (sendPush ''/push'' env_write_fails Background world0)) =
      [EvLock, EvStoreSnapshot snapshot1, EvUnlock,
       EvWrite 1 snapshot1 \<lparr>stream_id = 7, Conn = 1\<rparr>,
       EvReset \<lparr>stream_id = 7, Conn = 1\<rparr>, EvClose \<lparr>stream_id = 7, Conn = 1\<rparr>]"
proof -
  obtain r w1 where run: "openStream env_write_fails Background [''/push''] world0 = (r, w1)"
    by (cases "openStream env_write_fails Background [''/push''] world0")
  have r: "r = Returns (Inr \<lparr>stream_id = 7, Conn = 1\<rparr>)"
    using run
    by (auto simp: openStream_def peerSupportsProtos_def SupportsProtocols_def Let_def
        release_pushSemaphore_def chan_send_def chan_recv_def make_chan_def emit_def
        env_write_fails_def env_ok_def world0_def)
  have h: "openStream env_write_fails Background [''/push''] world0 =
      (Returns (Inr \<lparr>stream_id = 7, Conn = 1\<rparr>), w1)"
    using run r by simp
  have wr: "writeChunkedIdentifyMsg_result env_write_fails = Some (OtherError ''broken pipe'')"
    by (simp add: env_write_fails_def)
  have cur: "getSnapshot (ids world0) = snapshot1"
    by (simp add: getSnapshot_def world0_def)
  show ?thesis
    using sendPush_write_failure_resets[OF h wr] h wr cur by simp
qed

text \<open>
  C6. In every run of \<open>openStream\<close> the semaphore events of the call are none at all, or one
  acquisition followed by one release, and in that case the call returns; the semaphore
  channel is after the call as it was before it. An acquisition comes right after the
  peerstore lookup of a support check that returned true.
\<close>

theorem openStream_semaphore_paired:
  assumes "openStream e ctx protos w = (r, w')"
  shows "pushSemaphore (ids w') = pushSemaphore (ids w)
       \<and> (filter is_sem_event (new_events w w') = []
          \<or> filter is_sem_event (new_events w w') = [EvSemAcquire, EvSemRelease]
            \<and> (\<exists>x. r = Returns x))
       \<and> (EvSemAcquire \<in> set (new_events w w') \<longrightarrow>
            fst (peerSupportsProtos e ctx protos w) = Returns True
            \<and> (\<exists>post. new_events w w' =
                  EvSupportsProtocols (pid (ph w)) protos # EvSemAcquire # post))"
proof (cases rule: openStream_paths[of e ctx protos w])
  case CancelledInLoop
  then show ?thesis using assms by (auto simp: new_events_def)
next
  case BlockedInLoop
  then show ?thesis using assms by (auto simp: new_events_def)
next
  case BlockedInCheck
  then show ?thesis using assms by (auto simp: new_events_def)
next
  case (NotSupported w1)
  then have "w' = w1" using assms by simp
  then show ?thesis
    using peerSupportsProtos_world[OF NotSupported(2)] by (auto simp: new_events_def)
next
  case (SemaphoreFull w1)
  then have "w' = w1" using assms by simp
  then show ?thesis
    using peerSupportsProtos_world[OF SemaphoreFull(2)] by (auto simp: new_events_def)
next
  case (Negotiated w1 w'')
  then have "w' = w''" and "\<exists>x. r = Returns x" using assms by simp_all
  then show ?thesis
    using Negotiated(2,5,6) by (simp add: new_events_def)
qed

theorem openStream_semaphore_paired_witness:
  "pushSemaphore (ids (snd (openStream env_negotiation_times_out Background [''/push''] world0)))
     = make_chan 2
   \<and> filter is_sem_event
       (new_events world0 (snd (openStream env_negotiation_times_out Background [''/push''] world0)))
     = [EvSemAcquire, EvSemRelease]
   \<and> fst (openStream env_negotiation_times_out Background [''/push''] world0)
     = Returns (Inl (Foreign (ContextError DeadlineExceeded)))"
proof -
  obtain r w' where run:
    "openStream env_negotiation_times_out Background [''/push''] world0 = (r, w')"
    by (cases "openStream env_negotiation_times_out Background [''/push''] world0")
  have r: "r = Returns (Inl (Foreign (ContextError DeadlineExceeded)))"
    and acq: "EvSemAcquire \<in> set (new_events world0 w')"
    using run
    by (auto simp: openStream_def peerSupportsProtos_def SupportsProtocols_def Let_def
        release_pushSemaphore_def chan_send_def chan_recv_def make_chan_def emit_def
        new_events_def env_negotiation_times_out_def env_ok_def world0_def)
  have sem: "pushSemaphore (ids world0) = make_chan 2"
    by (simp add: world0_def)
  from openStream_semaphore_paired[OF run] acq
  have "pushSemaphore (ids w') = pushSemaphore (ids world0)"
    and "filter is_sem_event (new_events world0 w') = [EvSemAcquire, EvSemRelease]"
    by (auto simp: filter_empty_conv)
  then show ?thesis using run r sem by simp
qed

text \<open>
  C7. Every negotiation a run of \<open>openStream\<close> makes is asked of the host for the handler's
  peer with exactly the protocol list \<open>openStream\<close> was given, under the caller's context
  bounded by a fresh timeout of 30 seconds and carrying the no-dial hint; and a run makes
  one negotiation at most.
\<close>

theorem openStream_negotiation_arguments:
  assumes "openStream e ctx protos w = (r, w')"
      and "EvNewStream c p ps \<in> set (new_events w w')"
  shows "ps = protos \<and> p = pid (ph w)
       \<and> c = WithNoDial (WithTimeout ctx (30 * time_Second)) ''should already have connection''
       \<and> timeouts c = 30 * time_Second # timeouts ctx
       \<and> GetNoDial c = Some ''should already have connection''
       \<and> filter is_stream_event (new_events w w') = [EvNewStream c p ps]"
proof (cases rule: openStream_paths[of e ctx protos w])
  case CancelledInLoop
  then show ?thesis using assms by (auto simp: new_events_def)
next
  case BlockedInLoop
  then show ?thesis using assms by (auto simp: new_events_def)
next
  case BlockedInCheck
  then show ?thesis using assms by (auto simp: new_events_def)
next
  case (NotSupported w1)
  then have "w' = w1" using assms by simp
  then show ?thesis
    using peerSupportsProtos_world[OF NotSupported(2)] assms(2) by (auto simp: new_events_def)
next
  case (SemaphoreFull w1)
  then have "w' = w1" using assms by simp
  then show ?thesis
    using peerSupportsProtos_world[OF SemaphoreFull(2)] assms(2) by (auto simp: new_events_def)
next
  case (Negotiated w1 w'')
  then have "w' = w''" using assms by simp
  then show ?thesis
    using Negotiated(6) assms(2) by (simp add: new_events_def WithNoDial_def)
qed

theorem openStream_negotiation_arguments_witness:
  "filter is_stream_event (new_events world0 (snd (openStream env_ok Background [''/push''] world0)))
     = [EvNewStream
          (WithValue (WithTimeout Background 30000000000) ''noDial''
             ''should already have connection'')
          ''P'' [''/push'']]
   \<and> timeouts (WithValue (WithTimeout Background 30000000000) ''noDial''
        ''should already have connection'') = [30000000000]
   \<and> GetNoDial (WithValue (WithTimeout Background 30000000000) ''noDial''
        ''should already have connection'') = Some ''should already have connection''"
proof -
  let ?c = "WithValue (WithTimeout Background 30000000000) ''noDial''
              ''should already have connection''"
  obtain r w' where run: "openStream env_ok Background [''/push''] world0 = (r, w')"
    by (cases "openStream env_ok Background [''/push''] world0")
  have ev: "EvNewStream ?c ''P'' [''/push''] \<in> set (new_events world0 w')"
    using run
    by (auto simp: openStream_def peerSupportsProtos_def SupportsProtocols_def Let_def
        release_pushSemaphore_def chan_send_def chan_recv_def make_chan_def emit_def
        new_events_def env_ok_def world0_def WithNoDial_def time_Second_def
        ConvertFromStrings_def)
  show ?thesis
    using openStream_negotiation_arguments[OF run ev] run
    by (simp add: time_Second_def WithNoDial_def)
qed

text \<open>
  C3, as stated: whenever the context is cancelled while a call of \<open>openStream\<close> waits on a
  connection's identify-completion signal, the call returns the context's error. It fails
  where the wait is the second one, inside \<open>peerSupportsProtos\<close>: there the cancellation
  comes back as \<open>false\<close> and \<open>openStream\<close> returns \<open>errProtocolNotSupported\<close>.
\<close>

theorem openStream_cancel_in_check_counterexample:
  "range_conns (ConnsToPeer_openStream env_cancel_in_peerSupportsProtos) = FallsThrough
   \<and> range_conns (ConnsToPeer_peerSupportsProtos env_cancel_in_peerSupportsProtos) = ReturnsOnDone
   \<and> fst (openStream env_cancel_in_peerSupportsProtos Background [''/push''] world0)
       = Returns (Inl errProtocolNotSupported)
   \<and> fst (openStream env_cancel_in_peerSupportsProtos Background [''/push''] world0)
       \<noteq> Returns (Inl (Foreign (ContextError (ctx_Err env_cancel_in_peerSupportsProtos))))"
  by (simp add: openStream_def peerSupportsProtos_def env_cancel_in_peerSupportsProtos_def
      env_ok_def)

text \<open>
  C3, amended: whenever the context is cancelled while \<open>openStream\<close>'s own loop waits on a
  connection's identify-completion signal, \<open>openStream\<close> returns the context's error, no
  stream, and leaves the world as it was.
\<close>

theorem openStream_cancel_in_own_loop:
  assumes "range_conns (ConnsToPeer_openStream e) = ReturnsOnDone"
  shows "openStream e ctx protos w = (Returns (Inl (Foreign (ContextError (ctx_Err e)))), w)"
  using assms by (simp add: openStream_def)

theorem openStream_cancel_in_own_loop_witness:
  "range_conns (ConnsToPeer_openStream env_cancel_in_openStream) = ReturnsOnDone
   \<and> openStream env_cancel_in_openStream Background [''/push''] world0
       = (Returns (Inl (Foreign (ContextError Canceled))), world0)"
proof -
  have h: "range_conns (ConnsToPeer_openStream env_cancel_in_openStream) = ReturnsOnDone"
    by (simp add: env_cancel_in_openStream_def)
  have "ctx_Err env_cancel_in_openStream = Canceled"
    by (simp add: env_cancel_in_openStream_def env_ok_def)
  then show ?thesis
    using h openStream_cancel_in_own_loop[OF h, of Background "[''/push'']" world0] by simp
qed

text \<open>
  C4, as stated: \<open>peerSupportsProtos\<close> returns false only when the lookup succeeds and the
  intersection is empty. It fails where the context is cancelled during the wait: the
  function returns false with no lookup made, here for a peer the peerstore knows to speak
  the protocol asked for.
\<close>

theorem peerSupportsProtos_false_counterexample:
  "fst (peerSupportsProtos env_cancel_in_peerSupportsProtos Background [''/push''] world0)
     = Returns False
   \<and> Peerstore (ids world0) (pid (ph world0)) = Inr [''/push'', ''/x'']
   \<and> set [''/push'', ''/x''] \<inter> set [''/push''] \<noteq> {}
   \<and> SupportsProtocols (Peerstore (ids world0)) (pid (ph world0)) [''/push'']
     = ([''/push''], None)"
  by (simp add: peerSupportsProtos_def SupportsProtocols_def env_cancel_in_peerSupportsProtos_def
      env_ok_def world0_def)

text \<open>
  C4, amended: in every call of \<open>peerSupportsProtos\<close> that reaches the lookup and whose
  lookup returns an error, the function returns true; it returns false only when the
  context is cancelled during its wait, or the lookup succeeds and no protocol asked for
  is among the peer's known protocols.
\<close>

theorem peerSupportsProtos_fails_open:
  "(range_conns (ConnsToPeer_peerSupportsProtos e) = FallsThrough
      \<and> Peerstore (ids w) (pid (ph w)) = Inl err
    \<longrightarrow> fst (peerSupportsProtos e ctx protos w) = Returns True)
   \<and> (fst (peerSupportsProtos e ctx protos w) = Returns False
      \<longleftrightarrow> range_conns (ConnsToPeer_peerSupportsProtos e) = ReturnsOnDone
          \<or> range_conns (ConnsToPeer_peerSupportsProtos e) = FallsThrough
            \<and> (\<exists>known. Peerstore (ids w) (pid (ph w)) = Inr known
                  \<and> set known \<inter> set protos = {}))"
proof -
  have inter: "filter (\<lambda>x. x \<in> set known) protos = [] \<longleftrightarrow> set known \<inter> set protos = {}"
    for known :: "protocol_ID list"
    by (auto simp: filter_empty_conv)
  show ?thesis
    by (cases "range_conns (ConnsToPeer_peerSupportsProtos e)";
        cases "Peerstore (ids w) (pid (ph w))")
      (simp_all add: peerSupportsProtos_def SupportsProtocols_def Let_def inter)
qed

theorem peerSupportsProtos_fails_open_witness:
  "fst (peerSupportsProtos env_ok Background [''/push''] world_lookup_error) = Returns True
   \<and> fst (peerSupportsProtos env_ok Background [''/push''] world_no_push) = Returns False
   \<and> fst (peerSupportsProtos env_cancel_in_peerSupportsProtos Background [''/push''] world0)
       = Returns False"
proof -
  have loop: "range_conns (ConnsToPeer_peerSupportsProtos env_ok) = FallsThrough"
    by (simp add: env_ok_def)
  have err: "Peerstore (ids world_lookup_error) (pid (ph world_lookup_error))
      = Inl (OtherError ''datastore closed'')"
    by (simp add: world_lookup_error_def world0_def)
  have none: "Peerstore (ids world_no_push) (pid (ph world_no_push)) = Inr [''/x'']"
    by (simp add: world_no_push_def world0_def)
  have cancelled:
    "range_conns (ConnsToPeer_peerSupportsProtos env_cancel_in_peerSupportsProtos) = ReturnsOnDone"
    by (simp add: env_cancel_in_peerSupportsProtos_def)
  show ?thesis
    using peerSupportsProtos_fails_open
        [of env_ok world_lookup_error "OtherError ''datastore closed''" Background "[''/push'']"]
      peerSupportsProtos_fails_open
        [of env_ok world_no_push "OtherError ''datastore closed''" Background "[''/push'']"]
      peerSupportsProtos_fails_open
        [of env_cancel_in_peerSupportsProtos world0 "OtherError ''datastore closed''"
            Background "[''/push'']"]
      loop err none cancelled
    by simp
qed

text \<open>
  C10. When the context is cancelled while \<open>peerSupportsProtos\<close> waits on an
  identify-completion signal, \<open>peerSupportsProtos\<close> returns false; \<open>openStream\<close>, its own
  loop passed, then returns \<open>errProtocolNotSupported\<close>, which is not the context's error,
  and \<open>sendPush\<close> returns a nil error.
\<close>

theorem cancel_in_check_is_not_supported:
  assumes "range_conns (ConnsToPeer_peerSupportsProtos e) = ReturnsOnDone"
      and "range_conns (ConnsToPeer_openStream e) = FallsThrough"
  shows "peerSupportsProtos e ctx [IDPush] w = (Returns False, w)
       \<and> openStream e ctx [IDPush] w = (Returns (Inl errProtocolNotSupported), w)
       \<and> errProtocolNotSupported \<noteq> Foreign (ContextError (ctx_Err e))
       \<and> fst (sendPush IDPush e ctx w) = Returns None"
proof -
  have check: "peerSupportsProtos e ctx [IDPush] w = (Returns False, w)"
    using assms(1) by (simp add: peerSupportsProtos_def)
  have opened: "openStream e ctx [IDPush] w = (Returns (Inl errProtocolNotSupported), w)"
    by (rule openStream_not_supported[OF assms(2) check])
  show ?thesis
    using check opened sendPush_on_not_supported[OF opened] by simp
qed

theorem cancel_in_check_is_not_supported_witness:
  "range_conns (ConnsToPeer_peerSupportsProtos env_cancel_in_peerSupportsProtos) = ReturnsOnDone
   \<and> range_conns (ConnsToPeer_openStream env_cancel_in_peerSupportsProtos) = FallsThrough
   \<and> peerSupportsProtos env_cancel_in_peerSupportsProtos Background [''/push''] world0
       = (Returns False, world0)
   \<and> openStream env_cancel_in_peerSupportsProtos Background [''/push''] world0
       = (Returns (Inl errProtocolNotSupported), world0)
   \<and> fst (sendPush ''/push'' env_cancel_in_peerSupportsProtos Background world0) = Returns None"
proof -
  have h1: "range_conns (ConnsToPeer_peerSupportsProtos env_cancel_in_peerSupportsProtos)
      = ReturnsOnDone"
    by (simp add: env_cancel_in_peerSupportsProtos_def)
  have h2: "range_conns (ConnsToPeer_openStream env_cancel_in_peerSupportsProtos) = FallsThrough"
    by (simp add: env_cancel_in_peerSupportsProtos_def env_ok_def)
  show ?thesis
    using h1 h2 cancel_in_check_is_not_supported[OF h1 h2, of Background "''/push''" world0]
    by simp
qed

text \<open>
  C8. \<open>start\<close> on a handler whose \<open>cancel\<close> is set panics and changes nothing. \<open>stop\<close>
  returns a nil error in every state and leaves \<open>cancel\<close> cleared: on a running handler it
  calls the cancel function, on a stopped one it changes nothing, so a second \<open>stop\<close> is a
  no-op. After \<open>stop\<close>, \<open>start\<close> returns and the handler runs again.
\<close>

theorem start_stop_lifecycle:
  "(cancel (ph w) \<noteq> None \<longrightarrow> start ctx w = (Panics ''peer handler already running'', w))
   \<and> fst (stop w) = Returns None
   \<and> cancel (ph (snd (stop w))) = None
   \<and> (cancel (ph w) = Some (CancelFunc n) \<longrightarrow> new_events w (snd (stop w)) = [EvCancel n])
   \<and> (cancel (ph w) = None \<longrightarrow> stop w = (Returns None, w))
   \<and> stop (snd (stop w)) = (Returns None, snd (stop w))
   \<and> fst (start ctx (snd (stop w))) = Returns ()
   \<and> cancel (ph (snd (start ctx (snd (stop w))))) \<noteq> None"
proof -
  have stopped: "cancel (ph (snd (stop w))) = None"
    by (simp add: stop_def Let_def emit_def split: option.splits CancelFunc.splits)
  have again: "stop (snd (stop w)) = (Returns None, snd (stop w))"
    using stopped by (simp add: stop_def)
  have restart: "fst (start ctx (snd (stop w))) = Returns ()
      \<and> cancel (ph (snd (start ctx (snd (stop w))))) \<noteq> None"
    using stopped by (simp add: start_def Let_def emit_def)
  have "fst (stop w) = Returns None"
    by (simp add: stop_def Let_def split: option.splits CancelFunc.splits)
  moreover have "cancel (ph w) = Some (CancelFunc n) \<longrightarrow> new_events w (snd (stop w)) = [EvCancel n]"
    by (simp add: stop_def Let_def emit_def new_events_def)
  moreover have "cancel (ph w) \<noteq> None \<longrightarrow> start ctx w = (Panics ''peer handler already running'', w)"
    by (simp add: start_def)
  moreover have "cancel (ph w) = None \<longrightarrow> stop w = (Returns None, w)"
    by (simp add: stop_def)
  ultimately show ?thesis
    using stopped again restart by simp
qed

theorem start_stop_lifecycle_witness:
  "cancel (ph world0) = None
   \<and> stop world0 = (Returns None, world0)
   \<and> cancel (ph (snd (start Background world0))) = Some (CancelFunc 0)
   \<and> start Background (snd (start Background world0))
       = (Panics ''peer handler already running'', snd (start Background world0))
   \<and> fst (stop (snd (start Background world0))) = Returns None
   \<and> new_events (snd (start Background world0)) (snd (stop (snd (start Background world0))))
       = [EvCancel 0]
   \<and> fst (start Background (snd (stop (snd (start Background world0))))) = Returns ()"
proof -
  have stopped: "cancel (ph world0) = None"
    by (simp add: world0_def)
  have running: "cancel (ph (snd (start Background world0))) = Some (CancelFunc 0)"
    by (simp add: start_def Let_def emit_def world0_def)
  show ?thesis
    using stopped running
      start_stop_lifecycle[of world0 Background 0]
      start_stop_lifecycle[of "snd (start Background world0)" Background 0]
    by simp
qed

text \<open>
  C9. For every peer identifier and identify service, the handler \<open>newPeerHandler\<close> returns
  holds the service's current snapshot, and its push channel has capacity 1 and is empty;
  the handler is for that peer and is stopped.
\<close>

theorem newPeerHandler_initial:
  "snapshot (newPeerHandler p s) = getSnapshot s
   \<and> getSnapshot s = currentSnapshot s
   \<and> chan_cap (pushCh (newPeerHandler p s)) = 1
   \<and> chan_len (pushCh (newPeerHandler p s)) = 0
   \<and> pid (newPeerHandler p s) = p
   \<and> cancel (newPeerHandler p s) = None"
  by (simp add: newPeerHandler_def getSnapshot_def make_chan_def)

theorem newPeerHandler_initial_witness:
  "snapshot (newPeerHandler ''P'' (ids world0)) = snapshot1
   \<and> chan_cap (pushCh (newPeerHandler ''P'' (ids world0))) = 1
   \<and> chan_len (pushCh (newPeerHandler ''P'' (ids world0))) = 0"
proof -
  have "currentSnapshot (ids world0) = snapshot1"
    by (simp add: world0_def)
  then show ?thesis
    using newPeerHandler_initial[of "''P''" "ids world0"] by simp
qed

end
